theory Spec2Isabelle
  imports Main
begin

section \<open>Python values\<close>

text \<open>
  The menu code is dynamically typed: identifiers, modes and selections are checked at run
  time, and several claims are about what happens to a value of an unexpected type.  The
  values the code tells apart are \<open>None\<close>, booleans, integers, strings, lists, compiled
  regular expressions (\<open>re.Pattern\<close>, with their source) and \<open>range\<close> objects.

  Every comparison with \<open>==\<close>, \<open>!=\<close> and \<open>in\<close> in the code has a string or \<open>None\<close> on one
  side, where Python's equality is equality of these values (the identification of \<open>True\<close>
  with \<open>1\<close> never comes into play); it is written as HOL equality.
\<close>

datatype pyval =
    PNone
  | PBool bool
  | PInt int
  | PStr string
  | PList "pyval list"
  | PPattern string
  | PRange int int

datatype pytype = TStr | TBool | TInt | TFloat | TList | TPattern

datatype error =
    TypeError
  | ValueError_modes nat
  | ValueError_root_exists
  | IntegrityError_first pyval
  | IntegrityError_parent pyval pyval
  | CompositeError
  | AttributeError
  | KeyError
  | IndexError
  | NotImplementedError
  | ReError

text \<open>Sequencing of calls that may raise: the first exception ends the computation.\<close>

definition on_ok :: "error + 'a \<Rightarrow> ('a \<Rightarrow> error + 'b) \<Rightarrow> error + 'b" where
  "on_ok r f = (case r of Inl e \<Rightarrow> Inl e | Inr x \<Rightarrow> f x)"

text \<open>\<open>isinstance\<close>; \<open>bool\<close> is a subclass of \<open>int\<close>.\<close>

fun isinstance :: "pyval \<Rightarrow> pytype \<Rightarrow> bool" where
  "isinstance (PStr s) TStr = True"
| "isinstance (PBool b) TBool = True"
| "isinstance (PBool b) TInt = True"
| "isinstance (PInt i) TInt = True"
| "isinstance (PList xs) TList = True"
| "isinstance (PPattern r) TPattern = True"
| "isinstance v t = False"

text \<open>Truth value of an object in a condition.\<close>

fun truthy :: "pyval \<Rightarrow> bool" where
  "truthy PNone = False"
| "truthy (PBool b) = b"
| "truthy (PInt i) = (i \<noteq> 0)"
| "truthy (PStr s) = (s \<noteq> [])"
| "truthy (PList xs) = (xs \<noteq> [])"
| "truthy (PPattern r) = True"
| "truthy (PRange a b) = (a < b)"

text \<open>
  The elements a \<open>for\<close> loop runs over; iterating \<open>None\<close>, a number or a compiled pattern
  raises \<open>TypeError\<close>.
\<close>

fun py_iter :: "pyval \<Rightarrow> error + pyval list" where
  "py_iter (PList xs) = Inr xs"
| "py_iter (PStr s) = Inr (map (\<lambda>c. PStr [c]) s)"
| "py_iter (PRange a b) = Inr (map PInt [a..b - 1])"
| "py_iter v = Inl TypeError"

section \<open>The regular-expression library\<close>

text \<open>
  Python's \<open>re\<close> module is not part of the repository; it is a parameter of the model.
  \<open>re_compiles r\<close> says that \<open>re.compile(r)\<close> accepts the string \<open>r\<close>, and
  \<open>re_matches r s\<close> that the pattern \<open>r\<close> matches at the start of \<open>s\<close>, which is what
  \<open>re.match\<close> tests.
\<close>

record re_lib =
  re_compiles :: "string \<Rightarrow> bool"
  re_matches :: "string \<Rightarrow> string \<Rightarrow> bool"

text \<open>\<open>re.compile(v)\<close> returns without raising: a valid pattern string, or a compiled pattern.\<close>

fun compiles :: "re_lib \<Rightarrow> pyval \<Rightarrow> bool" where
  "compiles re (PStr r) = re_compiles re r"
| "compiles re (PPattern r) = True"
| "compiles re v = False"

text \<open>
  \<open>re.match(sel, inp)\<close>: the pattern is compiled first (\<open>TypeError\<close> when it is neither a
  string nor a compiled pattern, \<open>re.error\<close> when the string is no pattern), then matched
  against \<open>inp\<close>, which has to be a string.
\<close>

definition re_match :: "re_lib \<Rightarrow> pyval \<Rightarrow> pyval \<Rightarrow> error + bool" where
  "re_match re sel inp =
     (case sel of
        PStr r \<Rightarrow>
          (if re_compiles re r
           then (case inp of PStr s \<Rightarrow> Inr (re_matches re r s) | _ \<Rightarrow> Inl TypeError)
           else Inl ReError)
      | PPattern r \<Rightarrow> (case inp of PStr s \<Rightarrow> Inr (re_matches re r s) | _ \<Rightarrow> Inl TypeError)
      | _ \<Rightarrow> Inl TypeError)"

section \<open>utilities.varg\<close>

text \<open>
  The loop over the expected types: \<open>Pattern\<close> is the special case that tries to compile
  the input, every other type is an \<open>isinstance\<close> test.
\<close>

fun varg_loop :: "re_lib \<Rightarrow> pyval \<Rightarrow> pytype list \<Rightarrow> bool \<Rightarrow> bool" where
  "varg_loop re inp [] valid = valid"
| "varg_loop re inp (a # args) valid =
     varg_loop re inp args
       (if a = TPattern then (if compiles re inp then True else valid)
        else if isinstance inp a then True
        else valid)"

text \<open>
  \<open>varname\<close> is a string or \<open>None\<close> at every call of the repository, so the test of its own
  type never raises and is left to the type \<open>string option\<close>.
\<close>

definition varg :: "re_lib \<Rightarrow> pyval \<Rightarrow> pytype list \<Rightarrow> string option \<Rightarrow> error + bool" where
  "varg re inp args varname =
     (if inp = PNone then Inr True
      else let valid = varg_loop re inp args False
           in if varname \<noteq> None \<and> \<not> valid then Inl TypeError else Inr valid)"

text \<open>\<open>[varg(x, ...) for x in xs]\<close>: the first invalid element raises.\<close>

fun varg_each :: "re_lib \<Rightarrow> pyval list \<Rightarrow> pytype list \<Rightarrow> string option \<Rightarrow> error + unit" where
  "varg_each re [] args varname = Inr ()"
| "varg_each re (x # xs) args varname =
     (case varg re x args varname of
        Inl e \<Rightarrow> Inl e
      | Inr b \<Rightarrow> varg_each re xs args varname)"

section \<open>node.MenuNode\<close>

text \<open>
  A node with its attributes.  \<open>parent\<close> is the identifier of the parent; the constructor
  does not set this attribute (\<open>None\<close> here: reading it raises \<open>AttributeError\<close>), only
  \<open>add_child\<close> and \<open>add_node\<close> do.  The attribute \<open>run\<close> is stored and never read by the
  operations below, and is left out.
\<close>

datatype node =
  Node (node_id: pyval) (parent: "pyval option") (mode: pyval) (selection: pyval)
       (children: "node list")

text \<open>
  The keyword arguments of the constructor, with their defaults; \<open>kw_mode\<close> and
  \<open>kw_selection\<close> are the entries \<open>mode\<close> and \<open>selection\<close> of \<open>**kwargs\<close> (absent is
  \<open>None\<close>, the value the attributes have before the loop over \<open>kwargs\<close>).
\<close>

record kwargs =
  truefalse :: pyval
  choice :: pyval
  pattern :: pyval
  bounds :: pyval
  kw_mode :: pyval
  kw_selection :: pyval

definition no_kwargs :: kwargs where
  "no_kwargs = \<lparr>truefalse = PBool False, choice = PNone, pattern = PNone, bounds = PNone,
                kw_mode = PNone, kw_selection = PNone\<rparr>"

definition mode_count :: "kwargs \<Rightarrow> nat" where
  "mode_count kw =
     length (filter (\<lambda>x. x \<noteq> PNone \<and> x \<noteq> PBool False)
               [truefalse kw, choice kw, pattern kw, bounds kw])"

definition MenuNode :: "re_lib \<Rightarrow> pyval \<Rightarrow> kwargs \<Rightarrow> error + node" where
  "MenuNode re i kw =
     on_ok (varg re i [TStr] (Some ''id'')) (\<lambda>_.
     on_ok (varg re (truefalse kw) [TBool] (Some ''truefalse'')) (\<lambda>_.
     on_ok (varg re (choice kw) [TList] (Some ''choice'')) (\<lambda>_.
     on_ok (varg re (pattern kw) [TList, TPattern] (Some ''pattern'')) (\<lambda>_.
     on_ok (if choice kw \<noteq> PNone
            then on_ok (py_iter (choice kw))
                   (\<lambda>xs. varg_each re xs [TBool, TFloat, TInt, TStr] (Some ''choice''))
            else Inr ()) (\<lambda>_.
     on_ok (if isinstance (pattern kw) TList
            then on_ok (py_iter (pattern kw))
                   (\<lambda>xs. varg_each re xs [TPattern] (Some ''pattern''))
            else Inr ()) (\<lambda>_.
     let opt = mode_count kw in
     if opt > 1 then Inl (ValueError_modes opt)
     else if truthy (kw_selection kw) \<and> truthy (kw_mode kw)
       then Inr (Node i None (kw_mode kw) (kw_selection kw) [])
     else if choice kw \<noteq> PNone
       then Inr (Node i None (PStr ''choice'') (choice kw) [])
     else if pattern kw \<noteq> PNone
       then Inr (Node i None (PStr ''pattern'')
                  (if isinstance (pattern kw) TStr then PList [pattern kw] else pattern kw) [])
     else Inr (Node i None (PStr ''id'') (PList [i]) [])))))))"

text \<open>\<open>_pack\<close>: the serialization record of a node.\<close>

datatype item = Rec pyval pyval pyval pyval | Obj node

definition pack :: "node \<Rightarrow> error + item" where
  "pack n = (case parent n of
               None \<Rightarrow> Inl AttributeError
             | Some p \<Rightarrow> Inr (Rec (node_id n) p (mode n) (selection n)))"

text \<open>\<open>add_child\<close>: the child gets the identifier of this node as parent and is appended.\<close>

definition add_child :: "node \<Rightarrow> node \<Rightarrow> node" where
  "add_child self child =
     Node (node_id self) (parent self) (mode self) (selection self)
       (children self @
          [Node (node_id child) (Some (node_id self)) (mode child) (selection child)
             (children child)])"

text \<open>
  \<open>_rec_decompose_node\<close> is a generator.  A run of a generator is the list of what it
  yields and the exception that ended it, if one did.  A node without children yields
  itself (the object, not its record); otherwise each child's record is followed by the
  decomposition of the child when the child has children.
\<close>

fun rec_decompose_node :: "node \<Rightarrow> item list \<times> error option"
and rec_decompose_children :: "node list \<Rightarrow> item list \<times> error option" where
  "rec_decompose_node (Node i p m s cs) =
     (if cs \<noteq> [] then rec_decompose_children cs else ([Obj (Node i p m s cs)], None))"
| "rec_decompose_children [] = ([], None)"
| "rec_decompose_children (child # rest) =
     (case pack child of
        Inl e \<Rightarrow> ([], Some e)
      | Inr r \<Rightarrow>
          (case (if children child \<noteq> [] then rec_decompose_node child else ([], None)) of
             (xs, Some e) \<Rightarrow> (r # xs, Some e)
           | (xs, None) \<Rightarrow>
               (case rec_decompose_children rest of (ys, e) \<Rightarrow> (r # xs @ ys, e))))"

section \<open>shell.MenuShell\<close>

record menu_shell =
  root :: "node option"

definition MenuShell :: menu_shell where
  "MenuShell = \<lparr>root = None\<rparr>"

text \<open>
  A reference to a node of the shell is the path from the root to it (the positions in the
  lists of children).  Children are only ever appended, so a path keeps denoting the same
  node while the tree grows.  \<open>node_at\<close> reads the node at a path, \<open>add_child_at\<close> is
  \<open>add_child\<close> called on the node at a path; a path that leads to no node of the tree
  stands for a node outside the shell, and the tree is unchanged.
\<close>

fun node_at :: "node \<Rightarrow> nat list \<Rightarrow> node option"
and nodes_at :: "node list \<Rightarrow> nat \<Rightarrow> nat list \<Rightarrow> node option" where
  "node_at n [] = Some n"
| "node_at (Node i p m s cs) (k # ks) = nodes_at cs k ks"
| "nodes_at [] k ks = None"
| "nodes_at (c # cs) 0 ks = node_at c ks"
| "nodes_at (c # cs) (Suc k) ks = nodes_at cs k ks"

fun add_child_at :: "node \<Rightarrow> nat list \<Rightarrow> node \<Rightarrow> node"
and add_child_in :: "node list \<Rightarrow> nat \<Rightarrow> nat list \<Rightarrow> node \<Rightarrow> node list" where
  "add_child_at n [] child = add_child n child"
| "add_child_at (Node i p m s cs) (k # ks) child = Node i p m s (add_child_in cs k ks child)"
| "add_child_in [] k ks child = []"
| "add_child_in (c # cs) 0 ks child = add_child_at c ks child # cs"
| "add_child_in (c # cs) (Suc k) ks child = c # add_child_in cs k ks child"

text \<open>
  \<open>add_node\<close> returns the shell and the reference to the new node.  The parent is \<open>None\<close>
  or a reference to a node, so \<open>varg(parent, MenuNode)\<close> cannot raise here; a caller that
  holds another object raises \<open>TypeError\<close> in its place (see \<open>build_loop\<close>).
\<close>

definition add_node ::
  "re_lib \<Rightarrow> menu_shell \<Rightarrow> pyval \<Rightarrow> nat list option \<Rightarrow> kwargs \<Rightarrow> error + menu_shell \<times> nat list"
where
  "add_node re self i par kw =
     on_ok (varg re i [TStr] (Some ''id'')) (\<lambda>_.
     on_ok (MenuNode re i kw) (\<lambda>nd.
       if i = PStr ''root'' then
         (if root self = None
          then Inr (self\<lparr>root := Some (Node (node_id nd) (Some PNone) (mode nd) (selection nd)
                                     (children nd))\<rparr>, [])
          else Inl ValueError_root_exists)
       else
         (case par of
            None \<Rightarrow> Inl AttributeError
          | Some path \<Rightarrow>
              (case root self of
                 None \<Rightarrow> Inr (self, path @ [0])
               | Some t \<Rightarrow>
                   Inr (self\<lparr>root := Some (add_child_at t path nd)\<rparr>,
                        path @ [case node_at t path of
                                  None \<Rightarrow> 0
                                | Some pn \<Rightarrow> length (children pn)])))))"

text \<open>
  \<open>decompose_menu\<close>, a generator as well.  Without a root it calls \<open>logging.WARNING\<close>,
  which is the integer constant 30 of the logging module and not a function: the call
  raises \<open>TypeError\<close>.
\<close>

definition decompose_menu :: "menu_shell \<Rightarrow> item list \<times> error option" where
  "decompose_menu menu =
     (case root menu of
        Some r \<Rightarrow>
          (case pack r of
             Inl e \<Rightarrow> ([], Some e)
           | Inr rc \<Rightarrow> (case rec_decompose_node r of (xs, e) \<Rightarrow> (rc # xs, e)))
      | None \<Rightarrow> ([], Some TypeError))"

text \<open>\<open>tuple(g)\<close> of a generator \<open>g\<close>, as \<open>to_pkl\<close> builds it: the exception of the run, or all items.\<close>

definition tuple_of :: "item list \<times> error option \<Rightarrow> error + item list" where
  "tuple_of run = (case run of (xs, None) \<Rightarrow> Inr xs | (xs, Some e) \<Rightarrow> Inl e)"

section \<open>shell.from_tuple\<close>

text \<open>
  The validation loop, with the position \<open>n\<close> of \<open>enumerate\<close> and the list \<open>val_list\<close> of
  the identifiers seen.  An element that is not a 4-tuple cannot be unpacked.
\<close>

fun validate_loop :: "nat \<Rightarrow> pyval list \<Rightarrow> item list \<Rightarrow> error option" where
  "validate_loop n val_list [] = None"
| "validate_loop n val_list (Obj nd # rest) = Some TypeError"
| "validate_loop n val_list (Rec i p m s # rest) =
     (if n = 0 \<and> truthy p then Some (IntegrityError_first p)
      else if n > 0 \<and> i \<notin> set val_list then Some (IntegrityError_parent i p)
      else if \<not> isinstance i TStr then Some TypeError
      else if m \<notin> set [PStr ''id'', PStr ''choice'', PStr ''pattern''] then Some CompositeError
      else if \<not> isinstance s TList then Some TypeError
      else validate_loop (Suc n) (val_list @ [i]) rest)"

text \<open>
  The second loop keeps the nodes it creates in \<open>locals()\<close>, under their identifiers.  In
  CPython 3.11 and 3.12 (the package requires 3.11 or later) \<open>locals()\<close> returns one
  dictionary per call of the function, refreshed from the function's own variables at
  every call of \<open>locals()\<close>: an entry stored under another key stays, an entry stored under
  the name of a variable of \<open>from_tuple\<close> is overwritten by that variable (and removed if
  the variable is unbound).  \<open>env\<close> holds the stored entries; \<open>locals_lookup\<close> is
  \<open>locals()[key]\<close>, whose result is a node, \<open>None\<close>, or another object; with another
  object as parent, \<open>add_node\<close> raises \<open>TypeError\<close> in its check of the parent.  (From
  CPython 3.13 on every call of \<open>locals()\<close> returns a new dictionary, and each lookup of a
  parent raises \<open>KeyError\<close>.)
\<close>

datatype binding = BNode "nat list" | BNone | BOther

definition binding_of :: "pyval \<Rightarrow> binding" where
  "binding_of v = (if v = PNone then BNone else BOther)"

definition locals_lookup ::
  "bool \<Rightarrow> pyval \<Rightarrow> pyval \<Rightarrow> pyval \<Rightarrow> (pyval \<rightharpoonup> nat list) \<Rightarrow> pyval \<Rightarrow> error + binding"
where
  "locals_lookup validate i m s env key =
     (case key of
        PList xs \<Rightarrow> Inl TypeError
      | PStr name \<Rightarrow>
          (if name \<in> set [''obj'', ''validate'', ''n'', ''parent'', ''m''] then Inr BOther
           else if name = ''val_list'' then (if validate then Inr BOther else Inl KeyError)
           else if name = ''id'' then Inr (binding_of i)
           else if name = ''mode'' then Inr (binding_of m)
           else if name = ''selection'' then Inr (binding_of s)
           else (case env key of None \<Rightarrow> Inl KeyError | Some r \<Rightarrow> Inr (BNode r)))
      | _ \<Rightarrow> (case env key of None \<Rightarrow> Inl KeyError | Some r \<Rightarrow> Inr (BNode r)))"

fun build_loop ::
  "re_lib \<Rightarrow> bool \<Rightarrow> nat \<Rightarrow> menu_shell \<Rightarrow> (pyval \<rightharpoonup> nat list) \<Rightarrow> item list \<Rightarrow> error + menu_shell"
where
  "build_loop re validate n m env [] = Inr m"
| "build_loop re validate n m env (Obj nd # rest) = Inl TypeError"
| "build_loop re validate n m env (Rec i p md sel # rest) =
     (if n = 0 then
        (case add_node re m i None no_kwargs of
           Inl e \<Rightarrow> Inl e
         | Inr (m', r) \<Rightarrow> build_loop re validate (Suc n) m' (env(i \<mapsto> r)) rest)
      else
        (case locals_lookup validate i md sel env p of
           Inl e \<Rightarrow> Inl e
         | Inr BOther \<Rightarrow> Inl TypeError
         | Inr b \<Rightarrow>
             (case add_node re m i (case b of BNode path \<Rightarrow> Some path | _ \<Rightarrow> None)
                     (no_kwargs\<lparr>kw_mode := md, kw_selection := sel\<rparr>) of
                Inl e \<Rightarrow> Inl e
              | Inr (m', r) \<Rightarrow> build_loop re validate (Suc n) m' (env(i \<mapsto> r)) rest)))"

definition from_tuple :: "re_lib \<Rightarrow> item list \<Rightarrow> bool \<Rightarrow> error + menu_shell" where
  "from_tuple re obj validate =
     (case (if validate then validate_loop 0 [] obj else None) of
        Some e \<Rightarrow> Inl e
      | None \<Rightarrow> build_loop re validate 0 MenuShell Map.empty obj)"

section \<open>pointer.MenuPointer\<close>

text \<open>
  The pointer: the current node (\<open>None\<close> when the shell had no root), the shell, and the
  two history stacks, of the nodes left (\<open>traceid\<close>) and of the commands that were used
  (\<open>tracecmd\<close>).  No operation of the pointer changes the tree, so the nodes are held by
  value.
\<close>

record menu_pointer =
  node :: "node option"
  shell :: menu_shell
  traceid :: "node list"
  tracecmd :: "string list"

definition MenuPointer :: "menu_shell \<Rightarrow> menu_pointer" where
  "MenuPointer sh = \<lparr>node = root sh, shell = sh, traceid = [], tracecmd = []\<rparr>"

definition reset :: "menu_pointer \<Rightarrow> menu_pointer" where
  "reset self = MenuPointer (shell self)"

text \<open>What \<open>back\<close> and \<open>select\<close> write to the log.\<close>

datatype report = Returned | Already_at_origin

text \<open>
  The method \<open>back\<close> (\<open>back_step\<close> here, \<open>back\<close> being a command of Isabelle): both stacks
  are popped; the second \<open>pop\<close> would raise \<open>IndexError\<close> on an empty \<open>tracecmd\<close>.
\<close>

definition back_step :: "menu_pointer \<Rightarrow> error + report \<times> menu_pointer" where
  "back_step self =
     (if length (traceid self) > 0 then
        (if tracecmd self = [] then Inl IndexError
         else Inr (Returned,
                   self\<lparr>node := Some (last (traceid self)),
                        traceid := butlast (traceid self),
                        tracecmd := butlast (tracecmd self)\<rparr>))
      else Inr (Already_at_origin, self))"

text \<open>\<open>'|'.join\<close>.\<close>

fun join_bar :: "string list \<Rightarrow> string" where
  "join_bar [] = []"
| "join_bar [x] = x"
| "join_bar (x # y # ys) = x @ ''|'' @ join_bar (y # ys)"

text \<open>\<open>str(input)\<close>, for the inputs that pass \<open>varg(input, str)\<close>: a string or \<open>None\<close>.\<close>

fun py_str :: "pyval \<Rightarrow> string" where
  "py_str (PStr s) = s"
| "py_str v = ''None''"

text \<open>The two inner loops over the selectors of a child.\<close>

fun any_equal :: "pyval \<Rightarrow> pyval list \<Rightarrow> bool" where
  "any_equal inp [] = False"
| "any_equal inp (selector # rest) = (if inp = selector then True else any_equal inp rest)"

fun any_match :: "re_lib \<Rightarrow> pyval \<Rightarrow> pyval list \<Rightarrow> error + bool" where
  "any_match re inp [] = Inr False"
| "any_match re inp (selector # rest) =
     (case re_match re selector inp of
        Inl e \<Rightarrow> Inl e
      | Inr hit \<Rightarrow> (if hit then Inr True else any_match re inp rest))"

text \<open>
  The state after a match: the node left and the command are pushed, the child becomes the
  current node, and the joined commands are returned.  In the pattern branch the command
  is pushed as it is; it is a string there, since \<open>re.match\<close> raises on every other input.
\<close>

definition advance :: "menu_pointer \<Rightarrow> node \<Rightarrow> node \<Rightarrow> pyval \<Rightarrow> string option \<times> menu_pointer" where
  "advance self cur child inp =
     (Some (join_bar (tracecmd self @ [py_str inp])),
      self\<lparr>node := Some child,
           traceid := traceid self @ [cur],
           tracecmd := tracecmd self @ [py_str inp]\<rparr>)"

text \<open>
  The loop of \<open>select\<close> over the children of the current node.  When it ends without a
  match, \<open>select\<close> logs the invalid selection and returns \<open>None\<close>.
\<close>

fun select_loop ::
  "re_lib \<Rightarrow> menu_pointer \<Rightarrow> node \<Rightarrow> pyval \<Rightarrow> node list \<Rightarrow> error + string option \<times> menu_pointer"
where
  "select_loop re self cur inp [] = Inr (None, self)"
| "select_loop re self cur inp (child # rest) =
     (if mode child = PStr ''id'' \<or> mode child = PStr ''choice'' then
        (case py_iter (selection child) of
           Inl e \<Rightarrow> Inl e
         | Inr sels \<Rightarrow>
             (if any_equal inp sels then Inr (advance self cur child inp)
              else select_loop re self cur inp rest))
      else if mode child = PStr ''pattern'' then
        (case py_iter (selection child) of
           Inl e \<Rightarrow> Inl e
         | Inr sels \<Rightarrow>
             (case any_match re inp sels of
                Inl e \<Rightarrow> Inl e
              | Inr hit \<Rightarrow>
                  (if hit then Inr (advance self cur child inp)
                   else select_loop re self cur inp rest)))
      else Inl NotImplementedError)"

definition select :: "re_lib \<Rightarrow> menu_pointer \<Rightarrow> pyval \<Rightarrow> error + string option \<times> menu_pointer" where
  "select re self inp =
     on_ok (varg re inp [TStr] (Some ''input'')) (\<lambda>_.
       case node self of
         None \<Rightarrow> Inl AttributeError
       | Some cur \<Rightarrow> select_loop re self cur inp (children cur))"

section \<open>What the specification says of a tree\<close>

text \<open>
  The data model of the specification: a node has one of the three modes, its selection
  is a sequence, and in pattern mode every entry is a valid pattern.
\<close>

definition valid_pattern :: "re_lib \<Rightarrow> pyval \<Rightarrow> bool" where
  "valid_pattern re v = compiles re v"

definition elems :: "pyval \<Rightarrow> pyval list" where
  "elems v = (case v of PList xs \<Rightarrow> xs | _ \<Rightarrow> [])"

definition entries :: "node \<Rightarrow> pyval list" where
  "entries c = elems (selection c)"

definition well_formed_child :: "re_lib \<Rightarrow> node \<Rightarrow> bool" where
  "well_formed_child re c =
     (isinstance (selection c) TList \<and>
      (mode c = PStr ''id'' \<or> mode c = PStr ''choice'' \<or>
       (mode c = PStr ''pattern'' \<and> list_all (valid_pattern re) (entries c))))"

text \<open>
  When a child accepts an input, in the words of the specification: in mode \<open>id\<close> or
  \<open>choice\<close> the input equals one of the entries of the selection, in mode \<open>pattern\<close> it
  matches one of them at its start.
\<close>

definition pattern_accepts :: "re_lib \<Rightarrow> string \<Rightarrow> pyval \<Rightarrow> bool" where
  "pattern_accepts re s v =
     (case v of PStr r \<Rightarrow> re_matches re r s | PPattern r \<Rightarrow> re_matches re r s | _ \<Rightarrow> False)"

definition accepts :: "re_lib \<Rightarrow> node \<Rightarrow> string \<Rightarrow> bool" where
  "accepts re c s =
     (if mode c = PStr ''id'' \<or> mode c = PStr ''choice'' then PStr s \<in> set (entries c)
      else if mode c = PStr ''pattern'' then list_ex (pattern_accepts re s) (entries c)
      else False)"

text \<open>
  The life of a pointer after its construction is a sequence of calls of \<open>select\<close>,
  \<open>back\<close> and \<open>reset\<close>.  \<open>session\<close> runs such a sequence and keeps, beside the pointer,
  the list \<open>used\<close> of the inputs of the selections that succeeded and that no \<open>back\<close> has
  undone since the construction or the last reset: a successful \<open>select\<close> adds its input,
  a \<open>select\<close> that matches nothing adds none, a \<open>back\<close> that returns removes the last one,
  a \<open>back\<close> at the origin removes none, and \<open>reset\<close> empties the list.  A call that
  raises ends the session.
\<close>

datatype operation = Select string | Back | Reset

fun session ::
  "re_lib \<Rightarrow> menu_pointer \<Rightarrow> string list \<Rightarrow> operation list \<Rightarrow> (menu_pointer \<times> string list) option"
where
  "session re p used [] = Some (p, used)"
| "session re p used (Select s # ops) =
     (case select re p (PStr s) of
        Inl e \<Rightarrow> None
      | Inr (None, p') \<Rightarrow> session re p' used ops
      | Inr (Some r, p') \<Rightarrow> session re p' (used @ [s]) ops)"
| "session re p used (Back # ops) =
     (case back_step p of
        Inl e \<Rightarrow> None
      | Inr (Returned, p') \<Rightarrow> session re p' (butlast used) ops
      | Inr (Already_at_origin, p') \<Rightarrow> session re p' used ops)"
| "session re p used (Reset # ops) = session re (reset p) [] ops"

text \<open>All inputs given to \<open>select\<close> since the construction or the last reset.\<close>

fun inputs_since :: "string list \<Rightarrow> operation list \<Rightarrow> string list" where
  "inputs_since acc [] = acc"
| "inputs_since acc (Select s # ops) = inputs_since (acc @ [s]) ops"
| "inputs_since acc (Back # ops) = inputs_since acc ops"
| "inputs_since acc (Reset # ops) = inputs_since [] ops"

text \<open>All nodes of a tree in pre-order, and their records.\<close>

fun preorder :: "node \<Rightarrow> node list"
and preorder_list :: "node list \<Rightarrow> node list" where
  "preorder (Node i p m s cs) = Node i p m s cs # preorder_list cs"
| "preorder_list [] = []"
| "preorder_list (c # cs) = preorder c @ preorder_list cs"

definition record_of :: "node \<Rightarrow> item" where
  "record_of n = Rec (node_id n) (case parent n of None \<Rightarrow> PNone | Some p \<Rightarrow> p) (mode n) (selection n)"

text \<open>A node whose attribute \<open>parent\<close> has been set, as it is for every node of a shell.\<close>

definition attached :: "node \<Rightarrow> bool" where
  "attached n = (parent n \<noteq> None)"

text \<open>
  The types the specification gives to the arguments of the constructor: the identifier is
  a string, \<open>truefalse\<close> a boolean, \<open>choice\<close> a list of values that can be cast to strings,
  \<open>pattern\<close> a pattern or a list of patterns, \<open>bounds\<close> a range; and the number of mode
  inputs that a call supplies.
\<close>

definition string_castable :: "pyval \<Rightarrow> bool" where
  "string_castable v = (isinstance v TBool \<or> isinstance v TInt \<or> isinstance v TStr)"

definition is_range :: "pyval \<Rightarrow> bool" where
  "is_range v = (case v of PRange a b \<Rightarrow> True | _ \<Rightarrow> False)"

definition well_typed_args :: "re_lib \<Rightarrow> pyval \<Rightarrow> kwargs \<Rightarrow> bool" where
  "well_typed_args re i kw =
     (isinstance i TStr \<and>
      isinstance (truefalse kw) TBool \<and>
      (choice kw = PNone \<or>
       (isinstance (choice kw) TList \<and> list_all string_castable (elems (choice kw)))) \<and>
      (pattern kw = PNone \<or>
       (isinstance (pattern kw) TList \<and> list_all (compiles re) (elems (pattern kw))) \<or>
       compiles re (pattern kw)) \<and>
      (bounds kw = PNone \<or> is_range (bounds kw)))"

definition supplied_modes :: "kwargs \<Rightarrow> nat" where
  "supplied_modes kw =
     (if truefalse kw = PBool True then 1 else 0) +
     (if choice kw \<noteq> PNone then 1 else 0) +
     (if pattern kw \<noteq> PNone then 1 else 0) +
     (if bounds kw \<noteq> PNone then 1 else 0)"

text \<open>The pass-through pair: both \<open>mode\<close> and \<open>selection\<close> are given, with true values.\<close>

definition passthrough :: "kwargs \<Rightarrow> bool" where
  "passthrough kw = (truthy (kw_selection kw) \<and> truthy (kw_mode kw))"

section \<open>Examples\<close>

text \<open>
  A small stand-in for the regular-expression library, for evaluating the model: every
  string is a pattern, and a pattern matches the strings it is a prefix of.
\<close>

definition literal_re :: re_lib where
  "literal_re = \<lparr>re_compiles = (\<lambda>r. True), re_matches = (\<lambda>r s. take (length r) s = r)\<rparr>"

text \<open>The shell with a root only, and the shell with a root and one child.\<close>

definition root_only :: menu_shell where
  "root_only =
     \<lparr>root = Some (Node (PStr ''root'') (Some PNone) (PStr ''id'') (PList [PStr ''root'']) [])\<rparr>"

definition root_with_child :: menu_shell where
  "root_with_child =
     \<lparr>root = Some (Node (PStr ''root'') (Some PNone) (PStr ''id'') (PList [PStr ''root''])
        [Node (PStr ''a'') (Some (PStr ''root'')) (PStr ''id'') (PList [PStr ''a'']) []])\<rparr>"

text \<open>
  A menu of two levels: under the root the node \<open>a\<close>, and under \<open>a\<close> a node selected by
  its identifier, one selected by a pattern and one selected by a choice; and the pointer
  that has moved from the root to \<open>a\<close>.
\<close>

definition leaf_x :: node where
  "leaf_x = Node (PStr ''x'') (Some (PStr ''a'')) (PStr ''id'') (PList [PStr ''x'']) []"

definition leaf_num :: node where
  "leaf_num = Node (PStr ''num'') (Some (PStr ''a'')) (PStr ''pattern'') (PList [PStr ''4'']) []"

definition leaf_yn :: node where
  "leaf_yn = Node (PStr ''yn'') (Some (PStr ''a'')) (PStr ''choice'')
               (PList [PStr ''yes'', PStr ''no'']) []"

definition menu_a :: node where
  "menu_a = Node (PStr ''a'') (Some (PStr ''root'')) (PStr ''id'') (PList [PStr ''a''])
              [leaf_x, leaf_num, leaf_yn]"

definition menu_root :: node where
  "menu_root = Node (PStr ''root'') (Some PNone) (PStr ''id'') (PList [PStr ''root'']) [menu_a]"

definition two_level_shell :: menu_shell where
  "two_level_shell = \<lparr>root = Some menu_root\<rparr>"

definition pointer_at_a :: menu_pointer where
  "pointer_at_a =
     \<lparr>node = Some menu_a, shell = two_level_shell, traceid = [menu_root], tracecmd = [''a'']\<rparr>"

text \<open>
  A menu of three levels: under the root the node \<open>a\<close>, under \<open>a\<close> the node \<open>b\<close>, selected
  by a choice, and under \<open>b\<close> a node selected by its identifier and one selected by a
  pattern; and the pointer that has moved from the root to \<open>a\<close> and on to \<open>b\<close>.
\<close>

definition deep_go :: node where
  "deep_go = Node (PStr ''go'') (Some (PStr ''b'')) (PStr ''pattern'') (PList [PStr ''4'']) []"

definition deep_x :: node where
  "deep_x = Node (PStr ''x'') (Some (PStr ''b'')) (PStr ''id'') (PList [PStr ''x'']) []"

definition deep_b :: node where
  "deep_b = Node (PStr ''b'') (Some (PStr ''a'')) (PStr ''choice'')
              (PList [PStr ''b'', PStr ''bee'']) [deep_x, deep_go]"

definition deep_a :: node where
  "deep_a = Node (PStr ''a'') (Some (PStr ''root'')) (PStr ''id'') (PList [PStr ''a'']) [deep_b]"

definition deep_root :: node where
  "deep_root = Node (PStr ''root'') (Some PNone) (PStr ''id'') (PList [PStr ''root'']) [deep_a]"

definition deep_shell :: menu_shell where
  "deep_shell = \<lparr>root = Some deep_root\<rparr>"

definition pointer_at_deep_a :: menu_pointer where
  "pointer_at_deep_a =
     \<lparr>node = Some deep_a, shell = deep_shell, traceid = [deep_root], tracecmd = [''a'']\<rparr>"

definition pointer_at_b :: menu_pointer where
  "pointer_at_b =
     \<lparr>node = Some deep_b, shell = deep_shell, traceid = [deep_root, deep_a],
      tracecmd = [''a'', ''bee'']\<rparr>"

section \<open>First facts\<close>

lemma on_ok_Inl [simp]: "on_ok (Inl e) f = Inl e"
  by (simp add: on_ok_def)

lemma on_ok_Inr [simp]: "on_ok (Inr x) f = f x"
  by (simp add: on_ok_def)

lemma varg_None [simp]: "varg re PNone args varname = Inr True"
  by (simp add: varg_def)

text \<open>
  Claim C10.  \<open>varg\<close> returns \<open>True\<close> for the input \<open>None\<close>, whatever types are expected and
  whatever the variable name, without raising; so \<open>MenuNode(None)\<close> constructs a node whose
  identifier is \<open>None\<close>, whose mode is \<open>id\<close> and whose selection is the list \<open>[None]\<close>.
\<close>

theorem varg_accepts_None:
  "varg re PNone args varname = Inr True \<and>
   MenuNode re PNone no_kwargs = Inr (Node PNone None (PStr ''id'') (PList [PNone]) [])"
  by (simp add: MenuNode_def no_kwargs_def mode_count_def varg_def)

section \<open>The constructor on well-typed arguments\<close>

lemma varg_each_ok:
  "list_all (\<lambda>x. varg_loop re x args False) xs \<Longrightarrow> varg_each re xs args (Some nm) = Inr ()"
  by (induction xs) (simp_all add: varg_def)

lemma mode_count_supplied:
  assumes "well_typed_args re i kw"
  shows "mode_count kw = supplied_modes kw"
proof -
  from assms obtain b where tf: "truefalse kw = PBool b"
    by (cases "truefalse kw") (simp_all add: well_typed_args_def)
  from assms have bd: "bounds kw \<noteq> PBool False"
    by (auto simp: well_typed_args_def is_range_def)
  from assms have ch: "choice kw \<noteq> PBool False"
    by (auto simp: well_typed_args_def)
  from assms have pt: "pattern kw \<noteq> PBool False"
    by (auto simp: well_typed_args_def)
  show ?thesis using tf bd ch pt
    by (simp add: mode_count_def supplied_modes_def)
qed

lemma checks_pass:
  assumes "well_typed_args re i kw"
  shows "varg re i [TStr] (Some nm1) = Inr True"
    and "varg re (truefalse kw) [TBool] (Some nm2) = Inr True"
    and "varg re (choice kw) [TList] (Some nm3) = Inr True"
    and "varg re (pattern kw) [TList, TPattern] (Some nm4) = Inr True"
  using assms by (auto simp: well_typed_args_def varg_def)

lemma choice_elems_pass:
  assumes "well_typed_args re i kw" and "choice kw \<noteq> PNone"
  shows "on_ok (py_iter (choice kw))
           (\<lambda>xs. varg_each re xs [TBool, TFloat, TInt, TStr] (Some nm)) = Inr ()"
proof -
  from assms obtain xs where xs: "choice kw = PList xs" and all: "list_all string_castable xs"
    by (cases "choice kw") (auto simp: well_typed_args_def elems_def)
  have h: "string_castable x \<Longrightarrow> varg_loop re x [TBool, TFloat, TInt, TStr] False" for x
    by (cases x) (simp_all add: string_castable_def)
  from all have "list_all (\<lambda>x. varg_loop re x [TBool, TFloat, TInt, TStr] False) xs"
    unfolding list_all_iff using h by blast
  then show ?thesis using xs by (simp add: varg_each_ok)
qed

lemma pattern_elems_pass:
  assumes "well_typed_args re i kw" and "isinstance (pattern kw) TList"
  shows "on_ok (py_iter (pattern kw)) (\<lambda>xs. varg_each re xs [TPattern] (Some nm)) = Inr ()"
proof -
  from assms obtain xs where xs: "pattern kw = PList xs" and all: "list_all (compiles re) xs"
    by (cases "pattern kw") (auto simp: well_typed_args_def elems_def)
  from all have "list_all (\<lambda>x. varg_loop re x [TPattern] False) xs"
    by (induction xs) simp_all
  then show ?thesis using xs by (simp add: varg_each_ok)
qed

text \<open>What the constructor does with arguments of the expected types, branch by branch.\<close>

lemma MenuNode_well_typed:
  assumes "well_typed_args re i kw"
  shows "MenuNode re i kw =
     (if supplied_modes kw > 1 then Inl (ValueError_modes (supplied_modes kw))
      else if passthrough kw then Inr (Node i None (kw_mode kw) (kw_selection kw) [])
      else if choice kw \<noteq> PNone then Inr (Node i None (PStr ''choice'') (choice kw) [])
      else if pattern kw \<noteq> PNone
        then Inr (Node i None (PStr ''pattern'')
                   (if isinstance (pattern kw) TStr then PList [pattern kw] else pattern kw) [])
      else Inr (Node i None (PStr ''id'') (PList [i]) []))"
  using checks_pass [OF assms] choice_elems_pass [OF assms] pattern_elems_pass [OF assms]
    mode_count_supplied [OF assms]
  by (simp add: MenuNode_def passthrough_def)

text \<open>
  Claim C7, as the code has it.  With arguments of the expected types: a construction that
  supplies at most one of the mode inputs \<open>truefalse\<close>, \<open>choice\<close>, \<open>pattern\<close>, \<open>bounds\<close> and
  not the pass-through pair succeeds, and the mode of the node is \<open>id\<close>, \<open>choice\<close> or
  \<open>pattern\<close>; with the pass-through pair it succeeds and stores the given mode and
  selection as they are; a construction that supplies two or more of the mode inputs
  raises the \<open>ValueError\<close> that reports how many were supplied.
\<close>

theorem MenuNode_modes:
  assumes "well_typed_args re i kw"
  shows "(supplied_modes kw \<le> 1 \<and> \<not> passthrough kw \<longrightarrow>
            (\<exists>nd. MenuNode re i kw = Inr nd \<and>
                  mode nd \<in> {PStr ''id'', PStr ''choice'', PStr ''pattern''})) \<and>
         (supplied_modes kw \<le> 1 \<and> passthrough kw \<longrightarrow>
            MenuNode re i kw = Inr (Node i None (kw_mode kw) (kw_selection kw) [])) \<and>
         (2 \<le> supplied_modes kw \<longrightarrow>
            MenuNode re i kw = Inl (ValueError_modes (supplied_modes kw)))"
  by (simp add: MenuNode_well_typed [OF assms])

theorem MenuNode_modes_witness:
  "(\<exists>nd. MenuNode literal_re (PStr ''yn'') (no_kwargs\<lparr>choice := PList [PStr ''yes'', PStr ''no'']\<rparr>)
           = Inr nd \<and>
         mode nd \<in> {PStr ''id'', PStr ''choice'', PStr ''pattern''}) \<and>
   MenuNode literal_re (PStr ''yn'')
     (no_kwargs\<lparr>kw_mode := PStr ''choice'', kw_selection := PList [PStr ''yes'']\<rparr>)
     = Inr (Node (PStr ''yn'') None (PStr ''choice'') (PList [PStr ''yes'']) []) \<and>
   MenuNode literal_re (PStr ''yn'')
     (no_kwargs\<lparr>choice := PList [PStr ''yes'', PStr ''no''], pattern := PStr ''4''\<rparr>)
     = Inl (ValueError_modes 2)"
proof -
  let ?one = "no_kwargs\<lparr>choice := PList [PStr ''yes'', PStr ''no'']\<rparr>"
  let ?pass = "no_kwargs\<lparr>kw_mode := PStr ''choice'', kw_selection := PList [PStr ''yes'']\<rparr>"
  let ?two = "no_kwargs\<lparr>choice := PList [PStr ''yes'', PStr ''no''], pattern := PStr ''4''\<rparr>"
  have t1: "well_typed_args literal_re (PStr ''yn'') ?one"
    and t2: "well_typed_args literal_re (PStr ''yn'') ?pass"
    and t3: "well_typed_args literal_re (PStr ''yn'') ?two"
    by (simp_all add: well_typed_args_def no_kwargs_def elems_def string_castable_def
        literal_re_def)
  have c1: "supplied_modes ?one \<le> 1 \<and> \<not> passthrough ?one"
    and c2: "supplied_modes ?pass \<le> 1 \<and> passthrough ?pass"
    and c3: "supplied_modes ?two = 2"
    by (simp_all add: supplied_modes_def passthrough_def no_kwargs_def)
  show ?thesis
    using MenuNode_modes [OF t1] MenuNode_modes [OF t2] MenuNode_modes [OF t3] c1 c2 c3
    by (simp add: no_kwargs_def)
qed

text \<open>
  Claim C7, as it is written, fails at a construction with none of the four mode inputs
  and the pass-through pair: it succeeds, and the mode of the node is the string that was
  passed, here \<open>foo\<close>.
\<close>

theorem MenuNode_passthrough_counterexample:
  "supplied_modes (no_kwargs\<lparr>kw_mode := PStr ''foo'', kw_selection := PList [PStr ''x'']\<rparr>) = 0 \<and>
   MenuNode literal_re (PStr ''x'')
     (no_kwargs\<lparr>kw_mode := PStr ''foo'', kw_selection := PList [PStr ''x'']\<rparr>)
     = Inr (Node (PStr ''x'') None (PStr ''foo'') (PList [PStr ''x'']) []) \<and>
   PStr ''foo'' \<noteq> PStr ''id'' \<and> PStr ''foo'' \<noteq> PStr ''choice'' \<and>
   PStr ''foo'' \<noteq> PStr ''pattern''"
  by (simp add: MenuNode_def varg_def no_kwargs_def mode_count_def supplied_modes_def)

text \<open>
  A pattern given as one string is stored as the list of that string, and a list of
  patterns as it is, in mode \<open>pattern\<close>.
\<close>

lemma MenuNode_pattern_string:
  assumes "re_compiles re r"
  shows "MenuNode re (PStr x) (no_kwargs\<lparr>pattern := PStr r\<rparr>) =
           Inr (Node (PStr x) None (PStr ''pattern'') (PList [PStr r]) [])"
  using assms by (simp add: MenuNode_def varg_def no_kwargs_def mode_count_def)

lemma MenuNode_pattern_list:
  assumes "list_all (compiles re) rs"
  shows "MenuNode re (PStr x) (no_kwargs\<lparr>pattern := PList rs\<rparr>) =
           Inr (Node (PStr x) None (PStr ''pattern'') (PList rs) [])"
proof -
  have "well_typed_args re (PStr x) (no_kwargs\<lparr>pattern := PList rs\<rparr>)"
    using assms by (simp add: well_typed_args_def no_kwargs_def elems_def)
  from MenuNode_well_typed [OF this] show ?thesis
    by (simp add: supplied_modes_def passthrough_def no_kwargs_def)
qed

text \<open>
  Claim C9 says that a single pattern is stored as a one-element sequence.  The code does
  so for a string only: a pattern given as one compiled pattern (the type \<open>re.Pattern\<close>
  that the constructor's check of \<open>pattern\<close> names) is not wrapped, and the selection of
  the node is the pattern object itself, not a list.
\<close>

theorem MenuNode_compiled_pattern:
  "MenuNode re (PStr ''x'') (no_kwargs\<lparr>pattern := PPattern ''a''\<rparr>) =
     Inr (Node (PStr ''x'') None (PStr ''pattern'') (PPattern ''a'') [])"
  by (simp add: MenuNode_def varg_def no_kwargs_def mode_count_def)

section \<open>Flattening\<close>

text \<open>The example shells are the ones that \<open>add_node\<close> builds.\<close>

lemma root_only_built:
  "add_node re MenuShell (PStr ''root'') None no_kwargs = Inr (root_only, [])"
  by (simp add: add_node_def MenuNode_def varg_def no_kwargs_def mode_count_def MenuShell_def
      root_only_def)

lemma root_with_child_built:
  "add_node re root_only (PStr ''a'') (Some []) no_kwargs = Inr (root_with_child, [0])"
  by (simp add: add_node_def MenuNode_def varg_def no_kwargs_def mode_count_def root_only_def
      root_with_child_def add_child_def)

lemma pack_attached: "attached n \<Longrightarrow> pack n = Inr (record_of n)"
  by (auto simp: attached_def pack_def record_of_def)

lemma preorder_children: "preorder n = n # preorder_list (children n)"
  by (cases n) simp

text \<open>
  Below a node that has children, the generator yields the records of the descendants in
  pre-order.
\<close>

lemma rec_decompose_node_preorder:
  "children n \<noteq> [] \<Longrightarrow> list_all attached (preorder_list (children n)) \<Longrightarrow>
     rec_decompose_node n = (map record_of (preorder_list (children n)), None)"
  and rec_decompose_children_preorder:
  "list_all attached (preorder_list cs) \<Longrightarrow>
     rec_decompose_children cs = (map record_of (preorder_list cs), None)"
proof (induction n and cs rule: rec_decompose_node_rec_decompose_children.induct)
  case (1 i p m s cs)
  then show ?case by simp
next
  case 2
  then show ?case by simp
next
  case (3 child rest)
  from 3(3) have c: "attached child"
    and sub: "list_all attached (preorder_list (children child))"
    and r: "list_all attached (preorder_list rest)"
    by (simp_all add: preorder_children)
  have below: "(if children child \<noteq> [] then rec_decompose_node child else ([], None)) =
               (map record_of (preorder_list (children child)), None)"
  proof (cases "children child = []")
    case True
    then show ?thesis by simp
  next
    case False
    with 3(1) [OF pack_attached [OF c]] sub show ?thesis by simp
  qed
  have "rec_decompose_children rest = (map record_of (preorder_list rest), None)"
    using 3(2) [OF pack_attached [OF c] below [symmetric] refl r] .
  then show ?case
    using below by (simp add: pack_attached [OF c] preorder_children)
qed

text \<open>
  So the flattening of a shell whose root has children is the list of the records of all
  nodes in pre-order, one per node; the flattening of a shell whose root has no children
  is the record of the root followed by the root object.
\<close>

lemma decompose_menu_preorder:
  assumes "root sh = Some r" and "children r \<noteq> []" and "list_all attached (preorder r)"
  shows "decompose_menu sh = (map record_of (preorder r), None)"
proof -
  from assms(3) have a: "attached r" and b: "list_all attached (preorder_list (children r))"
    by (simp_all add: preorder_children)
  from rec_decompose_node_preorder [OF assms(2) b]
  have "rec_decompose_node r = (map record_of (preorder_list (children r)), None)" by simp
  then show ?thesis using assms(1) a
    by (simp add: decompose_menu_def pack_attached preorder_children)
qed

lemma decompose_menu_childless:
  assumes "root sh = Some r" and "children r = []" and "attached r"
  shows "decompose_menu sh = ([record_of r, Obj r], None)"
  using assms by (cases r) (simp add: decompose_menu_def pack_attached)

text \<open>
  Claim C3 says that flattening yields exactly one record per node.  For the shell that has
  only a root, the code yields two items for the one node: the record of the root, and
  then the root object itself, which is no record.
\<close>

theorem decompose_menu_root_only:
  "decompose_menu root_only =
     ([Rec (PStr ''root'') PNone (PStr ''id'') (PList [PStr ''root'']),
       Obj (Node (PStr ''root'') (Some PNone) (PStr ''id'') (PList [PStr ''root'']) [])],
      None)"
  by (simp add: decompose_menu_def root_only_def pack_def)

text \<open>
  Claim C8 says that flattening a shell without a root yields nothing and does not raise.
  The code yields nothing and raises \<open>TypeError\<close>, to the caller that iterates the
  generator, as \<open>tuple\<close> does.
\<close>

theorem decompose_menu_rootless:
  "decompose_menu MenuShell = ([], Some TypeError) \<and>
   tuple_of (decompose_menu MenuShell) = Inl TypeError"
  by (simp add: decompose_menu_def MenuShell_def tuple_of_def)

section \<open>Rebuilding\<close>

text \<open>
  Without validation, the records of the shell with one child are rebuilt into that shell.
\<close>

lemma from_tuple_unvalidated:
  "from_tuple re
     [Rec (PStr ''root'') PNone (PStr ''id'') (PList [PStr ''root'']),
      Rec (PStr ''a'') (PStr ''root'') (PStr ''id'') (PList [PStr ''a''])] False =
   Inr root_with_child"
  by (simp add: from_tuple_def add_node_def MenuNode_def varg_def no_kwargs_def mode_count_def
      MenuShell_def root_with_child_def locals_lookup_def add_child_def)

text \<open>
  The validation compares the identifier of a record, not its parent, with the identifiers
  seen before.  After a first record that passes, a second record with another identifier
  is rejected whatever its parent is.
\<close>

lemma validate_rejects_new_identifier:
  assumes "\<not> truthy p0" and "isinstance i0 TStr"
    and "m0 \<in> set [PStr ''id'', PStr ''choice'', PStr ''pattern'']" and "isinstance s0 TList"
    and "i1 \<noteq> i0"
  shows "from_tuple re (Rec i0 p0 m0 s0 # Rec i1 p1 m1 s1 # rest) True =
           Inl (IntegrityError_parent i1 p1)"
  using assms by (simp add: from_tuple_def)

lemma validate_second_record:
  "validate_loop 0 [] (Rec i0 p0 m0 s0 # Rec i1 p1 m1 s1 # rest) = None \<Longrightarrow> i1 = i0"
  by (simp split: if_splits)

text \<open>
  Claim C2 says that the validation raises an integrity error exactly when the first record
  has a parent or a later record names a parent that was not seen before.  The code raises
  the integrity error for a second record whose parent is the first record, and raises none
  for a second record whose parent \<open>ghost\<close> is no record at all (the rebuild then fails
  with \<open>KeyError\<close> when it looks the parent up).
\<close>

theorem from_tuple_checks_identifier:
  "from_tuple re
     [Rec (PStr ''root'') PNone (PStr ''id'') (PList [PStr ''root'']),
      Rec (PStr ''a'') (PStr ''root'') (PStr ''id'') (PList [PStr ''a''])] True =
   Inl (IntegrityError_parent (PStr ''a'') (PStr ''root'')) \<and>
   from_tuple re
     [Rec (PStr ''root'') PNone (PStr ''id'') (PList [PStr ''root'']),
      Rec (PStr ''root'') (PStr ''ghost'') (PStr ''id'') (PList [PStr ''root''])] True =
   Inl KeyError"
  by (simp add: from_tuple_def add_node_def MenuNode_def varg_def no_kwargs_def mode_count_def
      MenuShell_def locals_lookup_def)

text \<open>
  A second root cannot be added, and a first node without a parent has to be the root.
\<close>

lemma add_node_root_exists:
  "root m \<noteq> None \<Longrightarrow> \<exists>e. add_node re m (PStr ''root'') par kw = Inl e"
  by (cases "MenuNode re (PStr ''root'') kw") (auto simp: add_node_def varg_def)

lemma add_node_without_parent:
  "add_node re m i None kw = Inr (m', r) \<Longrightarrow> i = PStr ''root'' \<and> root m' \<noteq> None"
  by (auto simp: add_node_def on_ok_def split: sum.splits if_splits)

lemma build_two_records:
  "\<exists>e. build_loop re v 0 MenuShell Map.empty (Rec i p0 m0 s0 # Rec i p1 m1 s1 # rest) = Inl e"
proof (cases "add_node re MenuShell i None no_kwargs")
  case (Inl e)
  then show ?thesis by simp
next
  case (Inr a)
  obtain m' r where a: "a = (m', r)" by (cases a)
  from add_node_without_parent [OF Inr [unfolded a]]
  have i: "i = PStr ''root''" and m': "root m' \<noteq> None" by simp_all
  show ?thesis
  proof (cases "locals_lookup v i m1 s1 (Map.empty(i \<mapsto> r)) p1")
    case (Inl e)
    then show ?thesis using Inr a by simp
  next
    case look: (Inr b)
    obtain e where "add_node re m' (PStr ''root'')
        (case b of BNode path \<Rightarrow> Some path | _ \<Rightarrow> None)
        (no_kwargs\<lparr>kw_mode := m1, kw_selection := s1\<rparr>) = Inl e"
      using add_node_root_exists [OF m'] by blast
    then show ?thesis using Inr a look i by (cases b) simp_all
  qed
qed

lemma from_tuple_two_records:
  "\<exists>e. from_tuple re (Rec i0 p0 m0 s0 # Rec i1 p1 m1 s1 # rest) True = Inl e"
proof (cases "validate_loop 0 [] (Rec i0 p0 m0 s0 # Rec i1 p1 m1 s1 # rest)")
  case None
  from validate_second_record [OF None] have "i1 = i0" .
  then show ?thesis using None build_two_records [of re True i0 p0 m0 s0 p1 m1 s1 rest]
    by (simp add: from_tuple_def)
next
  case (Some e)
  then show ?thesis by (simp add: from_tuple_def)
qed

text \<open>What a flattening that ends without an exception looks like.\<close>

lemma rec_decompose_children_shape:
  "rec_decompose_children (c # cs) = (xs, None) \<Longrightarrow> \<exists>a b m s rest. xs = Rec a b m s # rest"
  by (auto simp: pack_def split: sum.splits option.splits prod.splits)

lemma decompose_menu_shape:
  assumes "decompose_menu sh = (xs, None)"
  shows "(\<exists>a b m s n. xs = [Rec a b m s, Obj n]) \<or>
         (\<exists>a b m s a' b' m' s' rest. xs = Rec a b m s # Rec a' b' m' s' # rest)"
proof -
  from assms obtain r where r: "root sh = Some r"
    by (auto simp: decompose_menu_def split: option.splits)
  obtain i p m s cs where n: "r = Node i p m s cs" by (cases r)
  show ?thesis
  proof (cases cs)
    case Nil
    with assms r n show ?thesis
      by (auto simp: decompose_menu_def pack_def split: option.splits)
  next
    case (Cons c cs')
    with assms r n obtain pr ys where xs: "xs = Rec i pr m s # ys"
      and ys: "rec_decompose_children (c # cs') = (ys, None)"
      by (auto simp: decompose_menu_def pack_def split: option.splits prod.splits)
    from rec_decompose_children_shape [OF ys] xs show ?thesis by blast
  qed
qed

text \<open>
  The validated rebuild of a flattening raises for every shell: the flattening of a
  childless root holds the root object, which is no record; in every other flattening the
  second record either has a new identifier, which the validation rejects, or the
  identifier of the root, which \<open>add_node\<close> rejects as a second root.
\<close>

lemma validated_rebuild_fails:
  "\<exists>e. on_ok (tuple_of (decompose_menu sh)) (\<lambda>obj. from_tuple re obj True) = Inl e"
proof (cases "decompose_menu sh")
  case (Pair xs err)
  show ?thesis
  proof (cases err)
    case (Some e)
    with Pair show ?thesis by (simp add: tuple_of_def)
  next
    case None
    from decompose_menu_shape [OF Pair [unfolded None]] show ?thesis
    proof
      assume "\<exists>a b m s n. xs = [Rec a b m s, Obj n]"
      then obtain a b m s n where "xs = [Rec a b m s, Obj n]" by blast
      then show ?thesis using Pair None
        by (auto simp: tuple_of_def from_tuple_def)
    next
      assume "\<exists>a b m s a' b' m' s' rest. xs = Rec a b m s # Rec a' b' m' s' # rest"
      then obtain a b m s a' b' m' s' rest where "xs = Rec a b m s # Rec a' b' m' s' # rest"
        by blast
      then show ?thesis using Pair None from_tuple_two_records [of re a b m s a' b' m' s' rest]
        by (simp add: tuple_of_def)
    qed
  qed
qed

text \<open>
  Claim C1 says that flattening a shell and rebuilding it with validation gives the shell
  back.  For the shell with a root and one child, the rebuild raises the integrity error
  at the record of the child; for the shell with a root only, it raises \<open>TypeError\<close> at
  the root object that the flattening holds.
\<close>

theorem roundtrip_raises:
  "on_ok (tuple_of (decompose_menu root_with_child)) (\<lambda>obj. from_tuple re obj True) =
     Inl (IntegrityError_parent (PStr ''a'') (PStr ''root'')) \<and>
   on_ok (tuple_of (decompose_menu root_only)) (\<lambda>obj. from_tuple re obj True) = Inl TypeError"
  by (simp add: decompose_menu_def root_with_child_def root_only_def pack_def tuple_of_def
      from_tuple_def)

section \<open>The pointer\<close>

text \<open>The menu of two levels is built by five calls of \<open>add_node\<close>.\<close>

lemma two_level_shell_built:
  "on_ok (add_node literal_re MenuShell (PStr ''root'') None no_kwargs) (\<lambda>(m1, r).
   on_ok (add_node literal_re m1 (PStr ''a'') (Some r) no_kwargs) (\<lambda>(m2, a).
   on_ok (add_node literal_re m2 (PStr ''x'') (Some a) no_kwargs) (\<lambda>(m3, x).
   on_ok (add_node literal_re m3 (PStr ''num'') (Some a) (no_kwargs\<lparr>pattern := PStr ''4''\<rparr>))
     (\<lambda>(m4, n).
   on_ok (add_node literal_re m4 (PStr ''yn'') (Some a)
            (no_kwargs\<lparr>choice := PList [PStr ''yes'', PStr ''no'']\<rparr>)) (\<lambda>(m5, y).
   Inr m5))))) = Inr two_level_shell"
  by (simp add: add_node_def MenuNode_def varg_def no_kwargs_def mode_count_def MenuShell_def
      add_child_def literal_re_def two_level_shell_def menu_root_def menu_a_def leaf_x_def
      leaf_num_def leaf_yn_def)

lemma any_equal_set: "any_equal inp sels = (inp \<in> set sels)"
  by (induction sels) auto

lemma re_match_valid:
  "valid_pattern re v \<Longrightarrow> re_match re v (PStr s) = Inr (pattern_accepts re s v)"
  by (cases v) (simp_all add: valid_pattern_def re_match_def pattern_accepts_def)

lemma any_match_valid:
  "list_all (valid_pattern re) sels \<Longrightarrow>
   any_match re (PStr s) sels = Inr (list_ex (pattern_accepts re s) sels)"
  by (induction sels) (simp_all add: re_match_valid)

lemma py_iter_entries:
  "isinstance (selection c) TList \<Longrightarrow> py_iter (selection c) = Inr (entries c)"
  by (cases "selection c") (simp_all add: entries_def elems_def)

text \<open>One turn of the loop: a child that does not accept the input is passed over, a
  child that accepts it ends the loop.\<close>

lemma select_loop_reject:
  "well_formed_child re c \<Longrightarrow> \<not> accepts re c s \<Longrightarrow>
   select_loop re p cur (PStr s) (c # rest) = select_loop re p cur (PStr s) rest"
  by (auto simp: well_formed_child_def accepts_def py_iter_entries any_equal_set any_match_valid)

lemma select_loop_accept:
  "well_formed_child re c \<Longrightarrow> accepts re c s \<Longrightarrow>
   select_loop re p cur (PStr s) (c # rest) = Inr (advance p cur c (PStr s))"
  by (auto simp: well_formed_child_def accepts_def py_iter_entries any_equal_set any_match_valid)

lemma select_loop_skip:
  "list_all (well_formed_child re) pre \<Longrightarrow> \<not> list_ex (\<lambda>c. accepts re c s) pre \<Longrightarrow>
   select_loop re p cur (PStr s) (pre @ rest) = select_loop re p cur (PStr s) rest"
proof (induction pre)
  case Nil
  then show ?case by simp
next
  case (Cons c pre)
  then show ?case using select_loop_reject [of re c s] by simp
qed

lemma select_str:
  "node p = Some cur \<Longrightarrow> select re p (PStr s) = select_loop re p cur (PStr s) (children cur)"
  by (simp add: select_def varg_def)

lemma select_loop_Some:
  "select_loop re p cur inp cs = Inr (Some r, p') \<Longrightarrow>
   \<exists>c. p' = p\<lparr>node := Some c, traceid := traceid p @ [cur],
               tracecmd := tracecmd p @ [py_str inp]\<rparr>"
  by (induction cs) (auto simp: advance_def split: if_splits sum.splits)

lemma select_loop_None:
  "select_loop re p cur inp cs = Inr (None, p') \<Longrightarrow> p' = p"
  by (induction cs) (auto simp: advance_def split: if_splits sum.splits)

text \<open>\<open>'|'.join\<close> of a list with a last element: every earlier element is followed by a bar.\<close>

lemma join_bar_snoc: "join_bar (ts @ [s]) = concat (map (\<lambda>t. t @ ''|'') ts) @ s"
proof (induction ts)
  case Nil
  then show ?case by simp
next
  case (Cons t ts)
  obtain y ys where "ts @ [s] = y # ys" by (cases ts) simp_all
  then have "join_bar (t # ts @ [s]) = t @ ''|'' @ join_bar (ts @ [s])" by simp
  with Cons show ?case by simp
qed

text \<open>What one call does to the stack of commands.\<close>

lemma select_tracecmd:
  assumes "select re p (PStr s) = Inr (Some r, p')"
  shows "tracecmd p' = tracecmd p @ [s]"
proof -
  from assms obtain cur where "select_loop re p cur (PStr s) (children cur) = Inr (Some r, p')"
    by (auto simp: select_def on_ok_def split: sum.splits option.splits)
  from select_loop_Some [OF this] show ?thesis by auto
qed

lemma select_unchanged:
  "select re p inp = Inr (None, p') \<Longrightarrow> p' = p"
  by (auto simp: select_def on_ok_def split: sum.splits option.splits dest: select_loop_None)

lemma back_step_tracecmd:
  "back_step p = Inr (Returned, p') \<Longrightarrow> tracecmd p' = butlast (tracecmd p)"
  "back_step p = Inr (Already_at_origin, p') \<Longrightarrow> p' = p"
  by (auto simp: back_step_def split: if_splits)

text \<open>
  Throughout a session, the stack of commands of the pointer is the list of the inputs of
  the successful selections that have not been undone.
\<close>

lemma session_tracecmd:
  "session re p used ops = Some (p', used') \<Longrightarrow> tracecmd p = used \<Longrightarrow> tracecmd p' = used'"
proof (induction ops arbitrary: p used)
  case Nil
  then show ?case by simp
next
  case (Cons op ops)
  show ?case
  proof (cases op)
    case (Select s)
    from Cons.prems(1) Select obtain r q where sel: "select re p (PStr s) = Inr (r, q)"
      by (auto split: sum.splits)
    show ?thesis
    proof (cases r)
      case None
      with sel Cons.prems(1) Select have rest: "session re q used ops = Some (p', used')"
        by simp
      from sel None select_unchanged have "q = p" by blast
      with Cons.prems(2) have "tracecmd q = used" by simp
      from Cons.IH [OF rest this] show ?thesis .
    next
      case (Some t)
      with sel Cons.prems(1) Select
      have rest: "session re q (used @ [s]) ops = Some (p', used')" by simp
      from sel Some select_tracecmd have "tracecmd q = tracecmd p @ [s]" by blast
      with Cons.prems(2) have "tracecmd q = used @ [s]" by simp
      from Cons.IH [OF rest this] show ?thesis .
    qed
  next
    case Back
    from Cons.prems(1) Back obtain rep q where b: "back_step p = Inr (rep, q)"
      by (auto split: sum.splits)
    show ?thesis
    proof (cases rep)
      case Returned
      with b Cons.prems(1) Back
      have rest: "session re q (butlast used) ops = Some (p', used')" by simp
      from b Returned back_step_tracecmd(1) have "tracecmd q = butlast (tracecmd p)" by blast
      with Cons.prems(2) have "tracecmd q = butlast used" by simp
      from Cons.IH [OF rest this] show ?thesis .
    next
      case Already_at_origin
      with b Cons.prems(1) Back have rest: "session re q used ops = Some (p', used')" by simp
      from b Already_at_origin back_step_tracecmd(2) have "q = p" by blast
      with Cons.prems(2) have "tracecmd q = used" by simp
      from Cons.IH [OF rest this] show ?thesis .
    qed
  next
    case Reset
    with Cons.prems(1) have rest: "session re (reset p) [] ops = Some (p', used')" by simp
    have "tracecmd (reset p) = []" by (simp add: reset_def MenuPointer_def)
    from Cons.IH [OF rest this] show ?thesis .
  qed
qed

lemma session_from_construction:
  "session re (MenuPointer sh) [] ops = Some (p, used) \<Longrightarrow> tracecmd p = used"
  using session_tracecmd [of re "MenuPointer sh" "[]" ops p used] by (simp add: MenuPointer_def)

text \<open>The nodes of the example are well formed, and what they accept.\<close>

lemma example_children:
  "well_formed_child literal_re leaf_x" "well_formed_child literal_re leaf_num"
  "well_formed_child literal_re leaf_yn" "well_formed_child literal_re menu_a"
  by (simp_all add: well_formed_child_def leaf_x_def leaf_num_def leaf_yn_def menu_a_def
      entries_def elems_def valid_pattern_def literal_re_def)

lemma example_accepts:
  "\<not> accepts literal_re leaf_x ''42''" "accepts literal_re leaf_num ''42''"
  "\<not> accepts literal_re leaf_x ''maybe''" "\<not> accepts literal_re leaf_num ''maybe''"
  "\<not> accepts literal_re leaf_yn ''maybe''" "accepts literal_re menu_a ''a''"
  by (simp_all add: accepts_def leaf_x_def leaf_num_def leaf_yn_def menu_a_def entries_def
      elems_def pattern_accepts_def literal_re_def)

lemma deep_children:
  "well_formed_child literal_re deep_x" "well_formed_child literal_re deep_go"
  "\<not> accepts literal_re deep_x ''42''" "accepts literal_re deep_go ''42''"
  by (simp_all add: well_formed_child_def accepts_def deep_x_def deep_go_def entries_def
      elems_def valid_pattern_def pattern_accepts_def literal_re_def)

text \<open>The steps of a session on the menu of three levels.\<close>

lemma deep_steps:
  "select literal_re (MenuPointer deep_shell) (PStr ''a'') = Inr (Some ''a'', pointer_at_deep_a)"
  "back_step pointer_at_deep_a = Inr (Returned, MenuPointer deep_shell)"
  "select literal_re pointer_at_deep_a (PStr ''bee'') = Inr (Some ''a|bee'', pointer_at_b)"
  by (simp_all add: select_def varg_def back_step_def MenuPointer_def deep_shell_def
      deep_root_def deep_a_def deep_b_def advance_def pointer_at_deep_a_def pointer_at_b_def)

text \<open>
  Claim C4, as the code has it.  The pointer is at a node \<open>cur\<close> whose children are well
  formed up to the child \<open>c\<close>; \<open>c\<close> accepts the input (in mode \<open>id\<close> or \<open>choice\<close> the input
  equals one of its entries, in mode \<open>pattern\<close> it matches one of them at its start), and
  no child stored before \<open>c\<close> does.  Then \<open>select\<close> pushes \<open>cur\<close> and the input onto the two
  history stacks, makes \<open>c\<close> the current node, and returns the commands of the history,
  each followed by a bar, and then the input.  The commands of the history are the inputs
  of the successful selections since the construction or the last reset that \<open>back\<close> has
  not undone: for a pointer that a session has led from its construction to this state,
  they are the list \<open>used\<close> of the session.
\<close>

theorem select_first_match:
  assumes "node p = Some cur"
    and "children cur = pre @ c # post"
    and "list_all (well_formed_child re) pre"
    and "\<not> list_ex (\<lambda>x. accepts re x s) pre"
    and "well_formed_child re c"
    and "accepts re c s"
  shows "select re p (PStr s) =
           Inr (Some (concat (map (\<lambda>t. t @ ''|'') (tracecmd p)) @ s),
                p\<lparr>node := Some c, traceid := traceid p @ [cur],
                  tracecmd := tracecmd p @ [s]\<rparr>) \<and>
         (session re (MenuPointer sh) [] ops = Some (p, used) \<longrightarrow> tracecmd p = used)"
proof
  have "select re p (PStr s) = select_loop re p cur (PStr s) (pre @ c # post)"
    using assms(1,2) by (simp add: select_str)
  also have "\<dots> = select_loop re p cur (PStr s) (c # post)"
    using assms(3,4) by (rule select_loop_skip)
  also have "\<dots> = Inr (advance p cur c (PStr s))"
    using assms(5,6) by (rule select_loop_accept)
  finally show "select re p (PStr s) =
           Inr (Some (concat (map (\<lambda>t. t @ ''|'') (tracecmd p)) @ s),
                p\<lparr>node := Some c, traceid := traceid p @ [cur],
                  tracecmd := tracecmd p @ [s]\<rparr>)"
    by (simp add: advance_def join_bar_snoc)
  show "session re (MenuPointer sh) [] ops = Some (p, used) \<longrightarrow> tracecmd p = used"
    by (auto dest: session_from_construction)
qed

theorem select_first_match_witness:
  "session literal_re (MenuPointer deep_shell) []
     [Select ''a'', Back, Select ''a'', Select ''bee''] = Some (pointer_at_b, [''a'', ''bee'']) \<and>
   select literal_re pointer_at_b (PStr ''42'') =
     Inr (Some ''a|bee|42'',
          \<lparr>node = Some deep_go, shell = deep_shell, traceid = [deep_root, deep_a, deep_b],
           tracecmd = [''a'', ''bee'', ''42'']\<rparr>)"
proof -
  have run: "session literal_re (MenuPointer deep_shell) []
     [Select ''a'', Back, Select ''a'', Select ''bee''] = Some (pointer_at_b, [''a'', ''bee''])"
    by (simp add: deep_steps)
  have h1: "node pointer_at_b = Some deep_b"
    by (simp add: pointer_at_b_def)
  have h2: "children deep_b = [deep_x] @ deep_go # []"
    by (simp add: deep_b_def)
  have h3: "list_all (well_formed_child literal_re) [deep_x]"
    by (simp add: deep_children)
  have h4: "\<not> list_ex (\<lambda>x. accepts literal_re x ''42'') [deep_x]"
    by (simp add: deep_children)
  from select_first_match [OF h1 h2 h3 h4 deep_children(2) deep_children(4),
      of deep_shell "[Select ''a'', Back, Select ''a'', Select ''bee'']" "[''a'', ''bee'']"] run
  have "select literal_re pointer_at_b (PStr ''42'') =
          Inr (Some (concat (map (\<lambda>t. t @ ''|'') [''a'', ''bee'']) @ ''42''),
               pointer_at_b\<lparr>node := Some deep_go, traceid := traceid pointer_at_b @ [deep_b],
                 tracecmd := [''a'', ''bee''] @ [''42'']\<rparr>)"
    by simp
  then show ?thesis using run by (simp add: pointer_at_b_def)
qed

text \<open>
  Claim C4, as it is written, says that the returned string joins all input tokens used
  since the construction or the last reset.  On the menu of two levels, after \<open>select\<close> of
  \<open>a\<close>, \<open>back\<close> and \<open>select\<close> of \<open>a\<close> again, \<open>select\<close> of \<open>x\<close> returns \<open>a|x\<close>: the first \<open>a\<close>,
  which \<open>back\<close> has undone, is not in it, while the inputs used since the construction are
  \<open>a\<close>, \<open>a\<close> and \<open>x\<close>.
\<close>

theorem select_after_back_counterexample:
  "session literal_re (MenuPointer two_level_shell) [] [Select ''a'', Back, Select ''a'']
     = Some (pointer_at_a, [''a'']) \<and>
   select literal_re pointer_at_a (PStr ''x'') =
     Inr (Some ''a|x'',
          \<lparr>node = Some leaf_x, shell = two_level_shell, traceid = [menu_root, menu_a],
           tracecmd = [''a'', ''x'']\<rparr>) \<and>
   inputs_since [] [Select ''a'', Back, Select ''a'', Select ''x''] = [''a'', ''a'', ''x''] \<and>
   join_bar [''a'', ''a'', ''x''] = ''a|a|x'' \<and>
   ''a|x'' \<noteq> ''a|a|x''"
proof -
  let ?p = "MenuPointer two_level_shell"
  have sel: "select literal_re ?p (PStr ''a'') = Inr (Some ''a'', pointer_at_a)"
    by (simp add: select_def varg_def MenuPointer_def two_level_shell_def menu_root_def
        menu_a_def advance_def pointer_at_a_def)
  have bk: "back_step pointer_at_a = Inr (Returned, ?p)"
    by (simp add: back_step_def pointer_at_a_def MenuPointer_def two_level_shell_def)
  have x: "select literal_re pointer_at_a (PStr ''x'') =
     Inr (Some ''a|x'',
          \<lparr>node = Some leaf_x, shell = two_level_shell, traceid = [menu_root, menu_a],
           tracecmd = [''a'', ''x'']\<rparr>)"
    by (simp add: select_def varg_def pointer_at_a_def menu_a_def leaf_x_def advance_def)
  show ?thesis by (simp add: sel bk x)
qed

text \<open>
  Claim C5.  The pointer is at a node whose children are well formed, and none of them
  accepts the input.  Then \<open>select\<close> returns \<open>None\<close> without raising, and the pointer
  (the current node and both history stacks) is as it was.
\<close>

theorem select_no_match:
  assumes "node p = Some cur"
    and "list_all (well_formed_child re) (children cur)"
    and "\<not> list_ex (\<lambda>x. accepts re x s) (children cur)"
  shows "select re p (PStr s) = Inr (None, p)"
proof -
  have "select_loop re p cur (PStr s) (children cur @ []) = select_loop re p cur (PStr s) []"
    using assms(2,3) by (rule select_loop_skip)
  then show ?thesis using assms(1) by (simp add: select_str)
qed

theorem select_no_match_witness:
  "select literal_re pointer_at_a (PStr ''maybe'') = Inr (None, pointer_at_a)"
proof -
  have h1: "node pointer_at_a = Some menu_a"
    by (simp add: pointer_at_a_def)
  have h2: "list_all (well_formed_child literal_re) (children menu_a)"
    by (simp add: menu_a_def example_children)
  have h3: "\<not> list_ex (\<lambda>x. accepts literal_re x ''maybe'') (children menu_a)"
    by (simp add: menu_a_def example_accepts)
  from select_no_match [OF h1 h2 h3] show ?thesis .
qed

text \<open>
  Claim C6.  After a \<open>select\<close> that succeeds, \<open>back\<close> gives the pointer back as it was
  before the \<open>select\<close>: the current node is the node that was left, and the entries that
  \<open>select\<close> pushed are gone from both stacks.  With an empty history, as after the
  construction or a reset, \<open>back\<close> changes nothing and reports that the pointer is at its
  origin.
\<close>

theorem select_then_back:
  "(select re p inp = Inr (Some r, p') \<longrightarrow> back_step p' = Inr (Returned, p)) \<and>
   (traceid p = [] \<longrightarrow> back_step p = Inr (Already_at_origin, p)) \<and>
   traceid (MenuPointer sh) = [] \<and> traceid (reset p) = []"
proof (intro conjI impI)
  assume sel: "select re p inp = Inr (Some r, p')"
  then obtain cur where cur: "node p = Some cur"
    and loop: "select_loop re p cur inp (children cur) = Inr (Some r, p')"
    by (auto simp: select_def on_ok_def split: sum.splits option.splits)
  from select_loop_Some [OF loop] obtain c where
    "p' = p\<lparr>node := Some c, traceid := traceid p @ [cur],
            tracecmd := tracecmd p @ [py_str inp]\<rparr>" ..
  with cur show "back_step p' = Inr (Returned, p)"
    by (simp add: back_step_def)
next
  assume "traceid p = []"
  then show "back_step p = Inr (Already_at_origin, p)"
    by (simp add: back_step_def)
next
  show "traceid (MenuPointer sh) = []" and "traceid (reset p) = []"
    by (simp_all add: MenuPointer_def reset_def)
qed

theorem select_then_back_witness:
  "select literal_re (MenuPointer two_level_shell) (PStr ''a'') = Inr (Some ''a'', pointer_at_a) \<and>
   back_step pointer_at_a = Inr (Returned, MenuPointer two_level_shell) \<and>
   back_step (MenuPointer two_level_shell) =
     Inr (Already_at_origin, MenuPointer two_level_shell)"
proof -
  let ?p = "MenuPointer two_level_shell"
  have sel: "select literal_re ?p (PStr ''a'') = Inr (Some ''a'', pointer_at_a)"
    by (simp add: select_def varg_def MenuPointer_def two_level_shell_def menu_root_def
        menu_a_def advance_def pointer_at_a_def)
  have empty: "traceid ?p = []"
    by (simp add: MenuPointer_def)
  from select_then_back [of literal_re ?p "PStr ''a''" "''a''" pointer_at_a two_level_shell]
    sel empty
  show ?thesis by simp
qed

end
